theory Spec2Isabelle
  imports Main "HOL-Library.Word"
begin

section \<open>The runtime the device is written against\<close>

text \<open>
  \<^verbatim>\<open>SmartDevice\<close> (src/SoloLinkedList.cpp) is one struct whose member functions change
  its fields and write lines to three streams: the log file, \<^verbatim>\<open>cout\<close> and \<^verbatim>\<open>cerr\<close>.
  The model passes the device and the world (streams, clock, file system) explicitly.

  \<^verbatim>\<open>int\<close> is the 32-bit two's complement integer of the target (the source uses the
  Microsoft form of \<^verbatim>\<open>localtime_s\<close>): a \<open>32 word\<close>, read with \<open>sint\<close>, whose \<open>+\<close> and
  \<open>-\<close> wrap around. (C++ leaves signed overflow undefined; the model takes the wrap-around
  of the target's addition. The statements proved about charging assume sums that fit,
  so they hold whatever an overflow does.)
  \<^verbatim>\<open>float\<close> arithmetic, \<^verbatim>\<open>std::to_string(float)\<close> and the calendar
  formatting of \<^verbatim>\<open>put_time\<close> are library primitives, not code of this program: they are
  taken as parameters, collected in a record, and every theorem holds for all of them.
\<close>

type_synonym int32 = "32 word"

record 'f runtime =
  fadd :: "'f \<Rightarrow> 'f \<Rightarrow> 'f"  \<comment> \<open>\<^verbatim>\<open>float + float\<close>\<close>
  fless :: "'f \<Rightarrow> 'f \<Rightarrow> bool"  \<comment> \<open>\<^verbatim>\<open>float < float\<close>; \<^verbatim>\<open>a > b\<close> is \<^verbatim>\<open>b < a\<close>\<close>
  float_of_int :: "int \<Rightarrow> 'f"  \<comment> \<open>the literal \<^verbatim>\<open>20.0f\<close>, and \<^verbatim>\<open>0\<close>, \<^verbatim>\<open>40\<close> converted to \<^verbatim>\<open>float\<close>\<close>
  to_string_float :: "'f \<Rightarrow> string"  \<comment> \<open>\<^verbatim>\<open>std::to_string(float)\<close>\<close>
  put_time :: "int \<Rightarrow> string"
    \<comment> \<open>\<^verbatim>\<open>localtime_s\<close> then \<^verbatim>\<open>put_time(..., "%Y-%m-%d %H:%M:%S")\<close> on a \<^verbatim>\<open>time_t\<close>\<close>

text \<open>One event is one \<^verbatim>\<open><< ... << endl\<close> statement: a line on one of the three streams.\<close>

datatype event = FileLine string | ConsoleLine string | CerrLine string

record world =
  clock :: "nat \<Rightarrow> int"  \<comment> \<open>the \<^verbatim>\<open>time_t\<close> of the k-th reading of \<^verbatim>\<open>system_clock::now()\<close>\<close>
  reads :: nat  \<comment> \<open>how many readings have been taken\<close>
  can_open :: "string \<Rightarrow> bool"  \<comment> \<open>whether the file system lets this file be opened for append\<close>
  out :: "event list"  \<comment> \<open>everything written so far, in order\<close>

section \<open>The device\<close>

record 'f SmartDevice =
  deviceName :: string
  deviceType :: string
  isPoweredOn :: bool
  batteryLevel :: int32
  temperature :: 'f
  location :: string
  logFile :: bool  \<comment> \<open>\<^verbatim>\<open>logFile.is_open()\<close>\<close>

type_synonym 'f state = "'f SmartDevice \<times> world"

subsection \<open>\<^verbatim>\<open>std::to_string(int)\<close>\<close>

fun digits :: "nat \<Rightarrow> string" where
  "digits n = (if n < 10 then [''0123456789'' ! n]
               else digits (n div 10) @ [''0123456789'' ! (n mod 10)])"

declare digits.simps [simp del]

text \<open>The decimal text of an integer; the model applies it to the value \<open>sint v\<close> of an \<^verbatim>\<open>int\<close>.\<close>

definition to_string :: "int \<Rightarrow> string" where
  "to_string v = (if v < 0 then CHR ''-'' # digits (nat (- v)) else digits (nat v))"

text \<open>The two bytes of the degree sign in the UTF-8 source file.\<close>

definition degree :: string where
  "degree = [CHR 0xC2, CHR 0xB0]"

subsection \<open>Logging\<close>

definition system_clock_now :: "world \<Rightarrow> int \<times> world" where
  "system_clock_now w = (clock w (reads w), w\<lparr>reads := Suc (reads w)\<rparr>)"

definition getCurrentTimestamp :: "'f runtime \<Rightarrow> world \<Rightarrow> string \<times> world" where
  "getCurrentTimestamp rt w =
     (case system_clock_now w of (now_time, w1) \<Rightarrow> (put_time rt now_time, w1))"

text \<open>
  \<^verbatim>\<open>ofstream::open\<close> on a stream that is already open fails and leaves it open; the
  constructors call \<^verbatim>\<open>initLogger\<close> on a fresh stream.
\<close>

definition initLogger :: "string \<Rightarrow> 'f state \<Rightarrow> 'f state" where
  "initLogger filename s =
     (case s of (d, w) \<Rightarrow>
        let d1 = d\<lparr>logFile := (logFile d \<or> can_open w filename)\<rparr>
        in if \<not> logFile d1
           then (d1, w\<lparr>out := out w @ [CerrLine (''Failed to open log file: '' @ filename)]\<rparr>)
           else (d1, w))"

text \<open>
  \<^verbatim>\<open>log\<close> reads the clock once into a variable it never uses, then takes the timestamp
  from \<^verbatim>\<open>getCurrentTimestamp\<close>, which reads it again.
\<close>

definition log :: "'f runtime \<Rightarrow> string \<Rightarrow> 'f state \<Rightarrow> 'f state" where
  "log rt message s =
     (case s of (d, w) \<Rightarrow>
        case system_clock_now w of (now_time, w1) \<Rightarrow>
        case getCurrentTimestamp rt w1 of (timestamp, w2) \<Rightarrow>
        let w3 = (if logFile d
                  then w2\<lparr>out := out w2 @
                         [FileLine (''['' @ timestamp @ ''] '' @ deviceName d @ '': '' @ message)]\<rparr>
                  else w2)
        in (d, w3\<lparr>out := out w3 @
                    [ConsoleLine (''['' @ timestamp @ ''] '' @ deviceName d @ '': '' @ message)]\<rparr>))"

subsection \<open>Constructors and destructor\<close>

definition SmartDevice_default :: "'f runtime \<Rightarrow> world \<Rightarrow> 'f state" where
  "SmartDevice_default rt w =
     log rt ''Device created with default parameters''
       (initLogger ''device_log.txt''
          (\<lparr>deviceName = ''Unknown'', deviceType = ''Generic'', isPoweredOn = False,
            batteryLevel = 100, temperature = float_of_int rt 20, location = ''Not set'',
            logFile = False\<rparr>, w))"

definition SmartDevice_name :: "'f runtime \<Rightarrow> string \<Rightarrow> world \<Rightarrow> 'f state" where
  "SmartDevice_name rt name w =
     (case SmartDevice_default rt w of (d, w1) \<Rightarrow>
        log rt (''Device name set to: '' @ name) (d\<lparr>deviceName := name\<rparr>, w1))"

definition SmartDevice_name_type :: "'f runtime \<Rightarrow> string \<Rightarrow> string \<Rightarrow> world \<Rightarrow> 'f state" where
  "SmartDevice_name_type rt name type w =
     (case SmartDevice_name rt name w of (d, w1) \<Rightarrow>
        log rt (''Device type set to: '' @ type) (d\<lparr>deviceType := type\<rparr>, w1))"

definition SmartDevice_name_type_loc ::
  "'f runtime \<Rightarrow> string \<Rightarrow> string \<Rightarrow> string \<Rightarrow> world \<Rightarrow> 'f state" where
  "SmartDevice_name_type_loc rt name type loc w =
     (case SmartDevice_name_type rt name type w of (d, w1) \<Rightarrow>
        log rt (''Device location set to: '' @ loc) (d\<lparr>location := loc\<rparr>, w1))"

definition SmartDevice_full ::
  "'f runtime \<Rightarrow> string \<Rightarrow> string \<Rightarrow> bool \<Rightarrow> int32 \<Rightarrow> 'f \<Rightarrow> string \<Rightarrow> world \<Rightarrow> 'f state" where
  "SmartDevice_full rt name type powered battery temp loc w =
     log rt ''Device fully initialized with custom parameters''
       (initLogger ''device_log.txt''
          (\<lparr>deviceName = name, deviceType = type, isPoweredOn = powered,
            batteryLevel = battery, temperature = temp, location = loc,
            logFile = False\<rparr>, w))"


subsection \<open>Setters and getters\<close>

definition setDeviceName :: "'f runtime \<Rightarrow> string \<Rightarrow> 'f state \<Rightarrow> 'f state" where
  "setDeviceName rt name s =
     (case s of (d, w) \<Rightarrow>
        log rt (''Device name changed to: '' @ name) (d\<lparr>deviceName := name\<rparr>, w))"

definition setDeviceType :: "'f runtime \<Rightarrow> string \<Rightarrow> 'f state \<Rightarrow> 'f state" where
  "setDeviceType rt type s =
     (case s of (d, w) \<Rightarrow>
        log rt (''Device type changed to: '' @ type) (d\<lparr>deviceType := type\<rparr>, w))"

definition setPoweredOn :: "'f runtime \<Rightarrow> bool \<Rightarrow> 'f state \<Rightarrow> 'f state" where
  "setPoweredOn rt powered s =
     (case s of (d, w) \<Rightarrow>
        log rt (''Device power state changed to: '' @ (if powered then ''ON'' else ''OFF''))
          (d\<lparr>isPoweredOn := powered\<rparr>, w))"

definition setBatteryLevel :: "'f runtime \<Rightarrow> int32 \<Rightarrow> 'f state \<Rightarrow> 'f state" where
  "setBatteryLevel rt level s =
     (case s of (d, w) \<Rightarrow>
        let level1 = (if sint level < 0 then 0 else level);
            level2 = (if sint level1 > 100 then 100 else level1)
        in log rt (''Battery level set to: '' @ to_string (sint level2) @ ''%'')
             (d\<lparr>batteryLevel := level2\<rparr>, w))"

definition setTemperature :: "'f runtime \<Rightarrow> 'f \<Rightarrow> 'f state \<Rightarrow> 'f state" where
  "setTemperature rt temp s =
     (case s of (d, w) \<Rightarrow>
        log rt (''Temperature set to: '' @ to_string_float rt temp @ degree @ ''C'')
          (d\<lparr>temperature := temp\<rparr>, w))"

definition setLocation :: "'f runtime \<Rightarrow> string \<Rightarrow> 'f state \<Rightarrow> 'f state" where
  "setLocation rt loc s =
     (case s of (d, w) \<Rightarrow>
        log rt (''Location changed to: '' @ loc) (d\<lparr>location := loc\<rparr>, w))"

definition getDeviceName :: "'f SmartDevice \<Rightarrow> string" where
  "getDeviceName d = deviceName d"

definition getDeviceType :: "'f SmartDevice \<Rightarrow> string" where
  "getDeviceType d = deviceType d"

definition getIsPoweredOn :: "'f SmartDevice \<Rightarrow> bool" where
  "getIsPoweredOn d = isPoweredOn d"

definition getBatteryLevel :: "'f SmartDevice \<Rightarrow> int32" where
  "getBatteryLevel d = batteryLevel d"

definition getTemperature :: "'f SmartDevice \<Rightarrow> 'f" where
  "getTemperature d = temperature d"

definition getLocation :: "'f SmartDevice \<Rightarrow> string" where
  "getLocation d = location d"

subsection \<open>Domain operations\<close>

definition powerToggle :: "'f runtime \<Rightarrow> 'f state \<Rightarrow> 'f state" where
  "powerToggle rt s =
     (case s of (d, w) \<Rightarrow>
        let d1 = d\<lparr>isPoweredOn := \<not> isPoweredOn d\<rparr>
        in log rt (''Device toggled to: '' @ (if isPoweredOn d1 then ''ON'' else ''OFF''))
             (d1, w))"

definition chargeBattery :: "'f runtime \<Rightarrow> int32 \<Rightarrow> 'f state \<Rightarrow> bool \<times> 'f state" where
  "chargeBattery rt amount s =
     (case s of (d, w) \<Rightarrow>
        if \<not> isPoweredOn d
        then (False, log rt ''Cannot charge - device is powered off'' (d, w))
        else
          let newLevel0 = batteryLevel d + amount;
              newLevel = (if sint newLevel0 > 100 then 100 else newLevel0);
              charged = newLevel - batteryLevel d;
              d1 = d\<lparr>batteryLevel := newLevel\<rparr>
          in (True,
              log rt (''Battery charged by '' @ to_string (sint charged) @ ''%. New level: '' @
                      to_string (sint (batteryLevel d1)) @ ''%'') (d1, w)))"

definition adjustTemperature :: "'f runtime \<Rightarrow> 'f \<Rightarrow> 'f state \<Rightarrow> 'f state" where
  "adjustTemperature rt delta s =
     (case s of (d, w) \<Rightarrow>
        if \<not> isPoweredOn d
        then log rt ''Cannot adjust temperature - device is powered off'' (d, w)
        else
          let oldTemp = temperature d;
              d1 = d\<lparr>temperature := fadd rt (temperature d) delta\<rparr>
          in log rt (''Temperature adjusted from '' @ to_string_float rt oldTemp @
                     degree @ ''C to '' @ to_string_float rt (temperature d1) @ degree @ ''C'')
               (d1, w))"

definition getDeviceStatus :: "'f runtime \<Rightarrow> 'f SmartDevice \<Rightarrow> string" where
  "getDeviceStatus rt d =
     ''Device: '' @ deviceName d @ '' ('' @ deviceType d @ '')'' @ [CHR 0x0A] @
     ''Location: '' @ location d @ [CHR 0x0A] @
     ''Power: '' @ (if isPoweredOn d then ''ON'' else ''OFF'') @ [CHR 0x0A] @
     ''Battery: '' @ to_string (sint (batteryLevel d)) @ ''%'' @ [CHR 0x0A] @
     ''Temperature: '' @ to_string_float rt (temperature d) @ degree @ ''C''"


definition isLowBattery :: "'f SmartDevice \<Rightarrow> bool" where
  "isLowBattery d = (sint (batteryLevel d) < 20)"

definition performDiagnostics :: "'f runtime \<Rightarrow> 'f state \<Rightarrow> 'f state" where
  "performDiagnostics rt s0 =
     (let s1 = log rt ''Starting diagnostics...'' s0;
          s2 = log rt (''Checking power: '' @ (if isPoweredOn (fst s1) then ''OK'' else ''OFF'')) s1;
          s3 = log rt (''Checking battery level: '' @
                       to_string (sint (batteryLevel (fst s2))) @ ''%'') s2;
          s4 = (if isLowBattery (fst s3)
                then log rt ''WARNING: Low battery detected!'' s3
                else log rt ''Battery level OK'' s3);
          s5 = log rt (''Checking temperature: '' @ to_string_float rt (temperature (fst s4)) @
                       degree @ ''C'') s4;
          s6 = (if fless rt (temperature (fst s5)) (float_of_int rt 0) \<or>
                   fless rt (float_of_int rt 40) (temperature (fst s5))
                then log rt ''WARNING: Temperature outside normal operating range!'' s5
                else log rt ''Temperature OK'' s5)
      in log rt ''Diagnostics completed'' s6)"

section \<open>Constructions and operation sequences\<close>






section \<open>What a log entry looks like\<close>

text \<open>
  The specification's words for one log entry: the line \<^verbatim>\<open>[<timestamp>] <device-name>: <message>\<close>,
  written to the sink and then to the console. \<open>emit\<close> has the sink's line only when
  the sink is open. \<open>stamp rt w k\<close> is the timestamp of the \<open>k\<close>-th call of \<^verbatim>\<open>log\<close> made
  from world \<open>w\<close> on (each call reads the clock twice and formats the second reading).
\<close>

definition entry_line :: "string \<Rightarrow> string \<Rightarrow> string \<Rightarrow> string" where
  "entry_line timestamp name message = ''['' @ timestamp @ ''] '' @ name @ '': '' @ message"

definition emit :: "bool \<Rightarrow> string \<Rightarrow> event list" where
  "emit sink_open line = (if sink_open then [FileLine line] else []) @ [ConsoleLine line]"

definition stamp :: "'f runtime \<Rightarrow> world \<Rightarrow> nat \<Rightarrow> string" where
  "stamp rt w k = put_time rt (clock w (reads w + 2 * k + 1))"

fun console_lines :: "event list \<Rightarrow> string list" where
  "console_lines [] = []"
| "console_lines (ConsoleLine l # es) = l # console_lines es"
| "console_lines (e # es) = console_lines es"

fun file_lines :: "event list \<Rightarrow> string list" where
  "file_lines [] = []"
| "file_lines (FileLine l # es) = l # file_lines es"
| "file_lines (e # es) = file_lines es"



section \<open>A sample runtime\<close>

text \<open>
  To evaluate the model at concrete inputs the parameters need values. The sample
  runtime keeps a temperature as an integer number of millionths of a degree, which
  is exact for the values used below (20, 22.5, 50, -5 and their sums are exact in
  \<^verbatim>\<open>float\<close> too), prints it with six decimals as \<^verbatim>\<open>"%f"\<close> does, and formats a
  \<^verbatim>\<open>time_t\<close> in the UTC time zone.
\<close>

definition two_digits :: "nat \<Rightarrow> string" where
  "two_digits n = [''0123456789'' ! (n div 10 mod 10), ''0123456789'' ! (n mod 10)]"

text \<open>Days since 1970-01-01 to a calendar date of the Gregorian calendar.\<close>

definition day_of_era :: "int \<Rightarrow> int" where
  "day_of_era days = (days + 719468) mod 146097"

definition year_of_era :: "int \<Rightarrow> int" where
  "year_of_era doe = (doe - doe div 1460 + doe div 36524 - doe div 146096) div 365"

definition day_of_year :: "int \<Rightarrow> int" where
  "day_of_year doe =
     doe - (365 * year_of_era doe + year_of_era doe div 4 - year_of_era doe div 100)"

definition civil_month :: "int \<Rightarrow> int" where
  "civil_month doy = (if (5 * doy + 2) div 153 < 10 then (5 * doy + 2) div 153 + 3
                      else (5 * doy + 2) div 153 - 9)"

definition civil_day :: "int \<Rightarrow> int" where
  "civil_day doy = doy - (153 * ((5 * doy + 2) div 153) + 2) div 5 + 1"

definition civil_year :: "int \<Rightarrow> int" where
  "civil_year days =
     year_of_era (day_of_era days) + (days + 719468) div 146097 * 400 +
     (if civil_month (day_of_year (day_of_era days)) \<le> 2 then 1 else 0)"

definition utc_put_time :: "int \<Rightarrow> string" where
  "utc_put_time t =
     two_digits (nat (civil_year (t div 86400) div 100)) @
     two_digits (nat (civil_year (t div 86400) mod 100)) @ ''-'' @
     two_digits (nat (civil_month (day_of_year (day_of_era (t div 86400))))) @ ''-'' @
     two_digits (nat (civil_day (day_of_year (day_of_era (t div 86400))))) @ '' '' @
     two_digits (nat (t mod 86400) div 3600) @ '':'' @
     two_digits (nat (t mod 86400) div 60 mod 60) @ '':'' @
     two_digits (nat (t mod 86400) mod 60)"

definition micro_to_string :: "int \<Rightarrow> string" where
  "micro_to_string x =
     (if x < 0 then ''-'' else []) @ digits (nat (\<bar>x\<bar> div 1000000)) @ ''.'' @
     map (\<lambda>k. ''0123456789'' ! nat (\<bar>x\<bar> div 10 ^ k mod 10)) [5, 4, 3, 2, 1, 0]"

definition sample_runtime :: "int runtime" where
  "sample_runtime =
     \<lparr>fadd = (+), fless = (<), float_of_int = (\<lambda>n. n * 1000000),
      to_string_float = micro_to_string, put_time = utc_put_time\<rparr>"

definition sample_world :: "bool \<Rightarrow> world" where
  "sample_world sink_ok =
     \<lparr>clock = (\<lambda>k. 1700000000 + int k), reads = 0, can_open = (\<lambda>f. sink_ok), out = []\<rparr>"

definition sample_device :: "bool \<Rightarrow> int32 \<Rightarrow> int \<Rightarrow> bool \<Rightarrow> int SmartDevice" where
  "sample_device powered battery temp sink_open =
     \<lparr>deviceName = ''X'', deviceType = ''Y'', isPoweredOn = powered, batteryLevel = battery,
      temperature = temp, location = ''Z'', logFile = sink_open\<rparr>"

section \<open>Facts about logging\<close>

text \<open>
  One call of \<^verbatim>\<open>log\<close> leaves the device alone, reads the clock twice and appends one
  entry: the line on the sink if it is open, then the same line on the console.
\<close>

lemma log_eq:
  "log rt m (d, w) =
     (d, w\<lparr>reads := reads w + 2,
           out := out w @ emit (logFile d) (entry_line (stamp rt w 0) (deviceName d) m)\<rparr>)"
  by (simp add: log_def system_clock_now_def getCurrentTimestamp_def emit_def entry_line_def
      stamp_def)

lemmas sample_defs = utc_put_time_def two_digits_def civil_year_def civil_day_def civil_month_def
  day_of_year_def year_of_era_def day_of_era_def micro_to_string_def digits.simps to_string_def
  sample_runtime_def sample_world_def sample_device_def emit_def entry_line_def stamp_def

section \<open>The battery range\<close>

text \<open>
  \<^verbatim>\<open>setBatteryLevel\<close> is the one path that clamps at both ends: whatever it is given,
  it stores a level between 0 and 100.
\<close>

lemma setBatteryLevel_value:
  "sint (batteryLevel (fst (setBatteryLevel rt level (d, w)))) = max 0 (min 100 (sint level))"
  by (simp add: setBatteryLevel_def log_eq Let_def)

lemma setBatteryLevel_clamps:
  "0 \<le> sint (batteryLevel (fst (setBatteryLevel rt level (d, w)))) \<and>
   sint (batteryLevel (fst (setBatteryLevel rt level (d, w)))) \<le> 100"
  by (simp add: setBatteryLevel_def log_eq Let_def)

text \<open>
  Claim C1 says that the battery level is in [0, 100] after every constructor and every
  sequence of operations, because every path that stores it clamps it. The code does not
  do that: the fully-specified constructor stores the level it is given (250 stays 250,
  -7 stays -7), and \<^verbatim>\<open>chargeBattery\<close> caps the new level at 100 only, so charging a
  device at 10 by -50 leaves it at -40.
\<close>

theorem battery_range_broken:
  "sint (batteryLevel (fst (SmartDevice_full rt ''X'' ''Y'' True 250 temp ''Z'' w))) = 250 \<and>
   sint (batteryLevel (fst (SmartDevice_full rt ''X'' ''Y'' True (- 7) temp ''Z'' w))) = - 7 \<and>
   sint (batteryLevel (fst (snd (chargeBattery rt (- 50)
           (SmartDevice_full rt ''X'' ''Y'' True 10 temp ''Z'' w))))) = - 40"
  by (simp add: SmartDevice_full_def initLogger_def chargeBattery_def log_eq Let_def)

text \<open>
  Claim C2 says that the device constructed from (name "X", type "Y", powered true,
  battery 150, temperature 22.5, location "Z") reports battery level 100 and every other
  field as given. On the code every getter returns what was given, the battery level
  too: it reports 150, for every temperature.
\<close>

theorem full_constructor_keeps_battery_150:
  "getBatteryLevel (fst (SmartDevice_full rt ''X'' ''Y'' True 150 temp ''Z'' w)) = 150 \<and>
   sint (getBatteryLevel (fst (SmartDevice_full rt ''X'' ''Y'' True 150 temp ''Z'' w))) = 150 \<and>
   getDeviceName (fst (SmartDevice_full rt ''X'' ''Y'' True 150 temp ''Z'' w)) = ''X'' \<and>
   getDeviceType (fst (SmartDevice_full rt ''X'' ''Y'' True 150 temp ''Z'' w)) = ''Y'' \<and>
   getIsPoweredOn (fst (SmartDevice_full rt ''X'' ''Y'' True 150 temp ''Z'' w)) = True \<and>
   getTemperature (fst (SmartDevice_full rt ''X'' ''Y'' True 150 temp ''Z'' w)) = temp \<and>
   getLocation (fst (SmartDevice_full rt ''X'' ''Y'' True 150 temp ''Z'' w)) = ''Z''"
  by (simp add: SmartDevice_full_def initLogger_def log_eq Let_def getBatteryLevel_def
      getDeviceName_def getDeviceType_def getIsPoweredOn_def getTemperature_def getLocation_def)

section \<open>Charging\<close>

text \<open>What \<^verbatim>\<open>chargeBattery\<close> does on a device that is powered off.\<close>

lemma chargeBattery_off:
  assumes "\<not> isPoweredOn d"
  shows "chargeBattery rt amount (d, w) =
           (False, d,
            w\<lparr>reads := reads w + 2,
              out := out w @ emit (logFile d)
                (entry_line (stamp rt w 0) (deviceName d)
                   ''Cannot charge - device is powered off'')\<rparr>)"
  using assms by (simp add: chargeBattery_def log_eq)

text \<open>
  Claim C4: on a device that is powered off, \<^verbatim>\<open>chargeBattery\<close> returns false for every
  amount, emits one log entry that states the reason, and leaves the device as it was
  (every field, the battery level among them). The world changes by the two clock
  readings and the entry only.
\<close>

theorem chargeBattery_powered_off:
  assumes "\<not> isPoweredOn d"
  shows "chargeBattery rt amount (d, w) =
           (False, d,
            w\<lparr>reads := reads w + 2,
              out := out w @ emit (logFile d)
                (entry_line (stamp rt w 0) (deviceName d)
                   ''Cannot charge - device is powered off'')\<rparr>)"
  using assms by (rule chargeBattery_off)

theorem chargeBattery_powered_off_witness:
  "\<not> isPoweredOn (sample_device False 50 20000000 True) \<and>
   fst (chargeBattery sample_runtime 10 (sample_device False 50 20000000 True, sample_world True))
     = False \<and>
   fst (snd (chargeBattery sample_runtime 10
               (sample_device False 50 20000000 True, sample_world True)))
     = sample_device False 50 20000000 True \<and>
   out (snd (snd (chargeBattery sample_runtime 10
               (sample_device False 50 20000000 True, sample_world True))))
     = [FileLine ''[2023-11-14 22:13:21] X: Cannot charge - device is powered off'',
        ConsoleLine ''[2023-11-14 22:13:21] X: Cannot charge - device is powered off'']"
  using chargeBattery_powered_off
    [of "sample_device False 50 20000000 True" sample_runtime 10 "sample_world True"]
  by (simp add: sample_defs)

text \<open>
  Addition and subtraction of two \<^verbatim>\<open>int\<close> values agree with the integers as long as
  the result fits in 32 bits.
\<close>

lemma sint_add_in_range:
  fixes a b :: int32
  assumes "- 2147483648 \<le> sint a + sint b" "sint a + sint b \<le> 2147483647"
  shows "sint (a + b) = sint a + sint b"
  using assms by (simp add: sint_word_ariths signed_take_bit_int_eq_self)

lemma sint_sub_in_range:
  fixes a b :: int32
  assumes "- 2147483648 \<le> sint a - sint b" "sint a - sint b \<le> 2147483647"
  shows "sint (a - b) = sint a - sint b"
  using assms by (simp add: sint_word_ariths signed_take_bit_int_eq_self)

text \<open>What \<^verbatim>\<open>chargeBattery\<close> does on a device that is powered on, in machine arithmetic.\<close>

lemma chargeBattery_on:
  assumes "isPoweredOn d"
  shows "chargeBattery rt amount (d, w) =
    (True,
     d\<lparr>batteryLevel := (if sint (batteryLevel d + amount) > 100 then 100 else batteryLevel d + amount)\<rparr>,
     w\<lparr>reads := reads w + 2,
       out := out w @ emit (logFile d) (entry_line (stamp rt w 0) (deviceName d)
         (''Battery charged by '' @
          to_string (sint ((if sint (batteryLevel d + amount) > 100 then 100 else batteryLevel d + amount) - batteryLevel d)) @
          ''%. New level: '' @
          to_string (sint (if sint (batteryLevel d + amount) > 100 then 100 else batteryLevel d + amount)) @ ''%''))\<rparr>)"
  using assms by (simp add: chargeBattery_def log_eq Let_def)

text \<open>
  Claim C3, as amended: on a device that is powered on, with an old level in [0, 100]
  and an amount that is not negative and \<^emph>\<open>whose sum with the old level fits in an\<close>
  \<^verbatim>\<open>int\<close>, \<^verbatim>\<open>chargeBattery\<close> returns true, sets the level to \<open>min 100 (old + amount)\<close>,
  changes no other field, and emits one entry that reports the delta applied
  (new level minus old level, not the amount asked for) and the new level.
\<close>

theorem chargeBattery_powered_on:
  assumes "isPoweredOn d" and "0 \<le> sint amount"
    and "0 \<le> sint (batteryLevel d)" and "sint (batteryLevel d) \<le> 100"
    and "sint (batteryLevel d) + sint amount \<le> 2147483647"
  shows "fst (chargeBattery rt amount (d, w)) = True \<and>
    sint (batteryLevel (fst (snd (chargeBattery rt amount (d, w))))) =
      min 100 (sint (batteryLevel d) + sint amount) \<and>
    fst (snd (chargeBattery rt amount (d, w))) =
      d\<lparr>batteryLevel := batteryLevel (fst (snd (chargeBattery rt amount (d, w))))\<rparr> \<and>
    out (snd (snd (chargeBattery rt amount (d, w)))) =
      out w @ emit (logFile d) (entry_line (stamp rt w 0) (deviceName d)
        (''Battery charged by '' @
         to_string (min 100 (sint (batteryLevel d) + sint amount) - sint (batteryLevel d)) @
         ''%. New level: '' @
         to_string (min 100 (sint (batteryLevel d) + sint amount)) @ ''%''))"
proof -
  let ?sum = "batteryLevel d + amount"
  let ?new = "if sint ?sum > 100 then 100 else ?sum"
  have sum: "sint ?sum = sint (batteryLevel d) + sint amount"
    using assms by (intro sint_add_in_range) simp_all
  have new: "sint ?new = min 100 (sint (batteryLevel d) + sint amount)"
    using sum by simp
  have "sint (?new - batteryLevel d) = sint ?new - sint (batteryLevel d)"
    using assms new by (intro sint_sub_in_range) (simp_all add: min_def)
  then have delta: "sint (?new - batteryLevel d) =
      min 100 (sint (batteryLevel d) + sint amount) - sint (batteryLevel d)"
    using new by simp
  show ?thesis
    unfolding chargeBattery_on [OF assms(1)] using new delta by simp
qed

text \<open>Claim C3, the amended statement at old level 95 and amount 10: charged by 5, to 100.\<close>

theorem chargeBattery_powered_on_witness:
  "isPoweredOn (sample_device True 95 20000000 True) \<and> 0 \<le> sint (10 :: int32) \<and>
   0 \<le> sint (batteryLevel (sample_device True 95 20000000 True)) \<and>
   sint (batteryLevel (sample_device True 95 20000000 True)) \<le> 100 \<and>
   sint (batteryLevel (sample_device True 95 20000000 True)) + sint (10 :: int32) \<le> 2147483647 \<and>
   fst (chargeBattery sample_runtime 10 (sample_device True 95 20000000 True, sample_world True))
     = True \<and>
   sint (batteryLevel (fst (snd (chargeBattery sample_runtime 10
           (sample_device True 95 20000000 True, sample_world True))))) = 100 \<and>
   out (snd (snd (chargeBattery sample_runtime 10
           (sample_device True 95 20000000 True, sample_world True)))) =
     [FileLine ''[2023-11-14 22:13:21] X: Battery charged by 5%. New level: 100%'',
      ConsoleLine ''[2023-11-14 22:13:21] X: Battery charged by 5%. New level: 100%'']"
  using chargeBattery_powered_on
    [of "sample_device True 95 20000000 True" 10 sample_runtime "sample_world True"]
  by (simp add: sample_defs)

text \<open>
  Claim C3 as it is written, for every amount that is not negative, fails where
  \<^verbatim>\<open>batteryLevel + amount\<close> leaves the range of \<^verbatim>\<open>int\<close>: at old level 100 and amount
  2147483647 the sum wraps to -2147483549, which is not above 100, so that is the level
  stored, not \<open>min 100 (old + amount) = 100\<close>; the delta wraps a second time.
\<close>

theorem chargeBattery_overflow_counterexample:
  "isPoweredOn (sample_device True 100 20000000 True) \<and> 0 \<le> sint (2147483647 :: int32) \<and>
   0 \<le> sint (batteryLevel (sample_device True 100 20000000 True)) \<and>
   sint (batteryLevel (sample_device True 100 20000000 True)) \<le> 100 \<and>
   min 100 (sint (batteryLevel (sample_device True 100 20000000 True)) +
            sint (2147483647 :: int32)) = 100 \<and>
   sint (batteryLevel (fst (snd (chargeBattery sample_runtime 2147483647
           (sample_device True 100 20000000 True, sample_world True))))) = - 2147483549 \<and>
   out (snd (snd (chargeBattery sample_runtime 2147483647
           (sample_device True 100 20000000 True, sample_world True)))) =
     [FileLine
        ''[2023-11-14 22:13:21] X: Battery charged by 2147483647%. New level: -2147483549%'',
      ConsoleLine
        ''[2023-11-14 22:13:21] X: Battery charged by 2147483647%. New level: -2147483549%'']"
  by (simp add: chargeBattery_on sample_defs)




section \<open>Temperature\<close>

lemma adjustTemperature_eq:
  "adjustTemperature rt delta (d, w) =
     (if isPoweredOn d
      then (d\<lparr>temperature := fadd rt (temperature d) delta\<rparr>,
            w\<lparr>reads := reads w + 2,
              out := out w @ emit (logFile d) (entry_line (stamp rt w 0) (deviceName d)
                (''Temperature adjusted from '' @ to_string_float rt (temperature d) @ degree @
                 ''C to '' @ to_string_float rt (fadd rt (temperature d) delta) @ degree @
                 ''C''))\<rparr>)
      else (d,
            w\<lparr>reads := reads w + 2,
              out := out w @ emit (logFile d) (entry_line (stamp rt w 0) (deviceName d)
                ''Cannot adjust temperature - device is powered off'')\<rparr>))"
  by (simp add: adjustTemperature_def log_eq Let_def)

text \<open>
  Claim C5: for every device and every delta, \<^verbatim>\<open>adjustTemperature\<close> on a device that is
  powered off leaves the device as it was (the temperature with it) and logs the reason;
  on a device that is powered on it stores \<open>old + delta\<close>, the sum as \<^verbatim>\<open>float\<close> addition
  gives it, with no clamping (so the stored value is negative whenever the sum is), and
  changes no other field. The function returns no value.
\<close>

theorem adjustTemperature_effect:
  "(\<not> isPoweredOn d \<longrightarrow>
      fst (adjustTemperature rt delta (d, w)) = d \<and>
      out (snd (adjustTemperature rt delta (d, w))) =
        out w @ emit (logFile d) (entry_line (stamp rt w 0) (deviceName d)
          ''Cannot adjust temperature - device is powered off'')) \<and>
   (isPoweredOn d \<longrightarrow>
      fst (adjustTemperature rt delta (d, w)) =
        d\<lparr>temperature := fadd rt (temperature d) delta\<rparr> \<and>
      temperature (fst (adjustTemperature rt delta (d, w))) = fadd rt (temperature d) delta)"
  by (simp add: adjustTemperature_eq)

text \<open>
  Claim C5 at 20 degrees and delta -25: nothing changes on the device that is off; the
  device that is on ends at -5 degrees.
\<close>

theorem adjustTemperature_effect_witness:
  "\<not> isPoweredOn (sample_device False 50 20000000 True) \<and>
   fst (adjustTemperature sample_runtime (- 25000000)
      (sample_device False 50 20000000 True, sample_world True)) =
     sample_device False 50 20000000 True \<and>
   out (snd (adjustTemperature sample_runtime (- 25000000)
      (sample_device False 50 20000000 True, sample_world True))) =
     [FileLine ''[2023-11-14 22:13:21] X: Cannot adjust temperature - device is powered off'',
      ConsoleLine ''[2023-11-14 22:13:21] X: Cannot adjust temperature - device is powered off''] \<and>
   isPoweredOn (sample_device True 50 20000000 True) \<and>
   temperature (fst (adjustTemperature sample_runtime (- 25000000)
      (sample_device True 50 20000000 True, sample_world True))) = - 5000000 \<and>
   to_string_float sample_runtime (temperature (fst (adjustTemperature sample_runtime (- 25000000)
      (sample_device True 50 20000000 True, sample_world True)))) = ''-5.000000''"
  using adjustTemperature_effect
    [of "sample_device False 50 20000000 True" sample_runtime "- 25000000" "sample_world True"]
    adjustTemperature_effect
    [of "sample_device True 50 20000000 True" sample_runtime "- 25000000" "sample_world True"]
  by (simp add: sample_defs)

section \<open>Diagnostics\<close>

lemma console_lines_append: "console_lines (xs @ ys) = console_lines xs @ console_lines ys"
  by (induction xs rule: console_lines.induct) simp_all


text \<open>
  \<^verbatim>\<open>performDiagnostics\<close> makes seven calls of \<^verbatim>\<open>log\<close> on every path: each of the two
  checks logs either its warning or its OK line.
\<close>

lemma performDiagnostics_eq:
  "performDiagnostics rt (d, w) =
     (d, w\<lparr>reads := reads w + 14,
           out := out w @
             emit (logFile d) (entry_line (stamp rt w 0) (deviceName d)
               ''Starting diagnostics...'') @
             emit (logFile d) (entry_line (stamp rt w 1) (deviceName d)
               (''Checking power: '' @ (if isPoweredOn d then ''OK'' else ''OFF''))) @
             emit (logFile d) (entry_line (stamp rt w 2) (deviceName d)
               (''Checking battery level: '' @ to_string (sint (batteryLevel d)) @ ''%'')) @
             emit (logFile d) (entry_line (stamp rt w 3) (deviceName d)
               (if isLowBattery d then ''WARNING: Low battery detected!''
                else ''Battery level OK'')) @
             emit (logFile d) (entry_line (stamp rt w 4) (deviceName d)
               (''Checking temperature: '' @ to_string_float rt (temperature d) @ degree @
                ''C'')) @
             emit (logFile d) (entry_line (stamp rt w 5) (deviceName d)
               (if fless rt (temperature d) (float_of_int rt 0) \<or>
                   fless rt (float_of_int rt 40) (temperature d)
                then ''WARNING: Temperature outside normal operating range!''
                else ''Temperature OK'')) @
             emit (logFile d) (entry_line (stamp rt w 6) (deviceName d)
               ''Diagnostics completed'')\<rparr>)"
  unfolding performDiagnostics_def Let_def
  by (simp add: log_eq stamp_def eval_nat_numeral)

text \<open>
  Claim C6, as amended: every call of \<^verbatim>\<open>performDiagnostics\<close> emits exactly seven log
  entries and changes no field of the device. The fourth entry is the low-battery
  warning if \<^verbatim>\<open>isLowBattery()\<close> holds and "Battery level OK" otherwise; the sixth is the
  temperature warning if the temperature is below 0 or above 40 and "Temperature OK"
  otherwise.
\<close>

theorem performDiagnostics_seven_entries:
  "fst (performDiagnostics rt (d, w)) = d \<and>
   out (snd (performDiagnostics rt (d, w))) =
     out w @
     emit (logFile d) (entry_line (stamp rt w 0) (deviceName d)
       ''Starting diagnostics...'') @
     emit (logFile d) (entry_line (stamp rt w 1) (deviceName d)
       (''Checking power: '' @ (if isPoweredOn d then ''OK'' else ''OFF''))) @
     emit (logFile d) (entry_line (stamp rt w 2) (deviceName d)
       (''Checking battery level: '' @ to_string (sint (batteryLevel d)) @ ''%'')) @
     emit (logFile d) (entry_line (stamp rt w 3) (deviceName d)
       (if isLowBattery d then ''WARNING: Low battery detected!''
        else ''Battery level OK'')) @
     emit (logFile d) (entry_line (stamp rt w 4) (deviceName d)
       (''Checking temperature: '' @ to_string_float rt (temperature d) @ degree @
        ''C'')) @
     emit (logFile d) (entry_line (stamp rt w 5) (deviceName d)
       (if fless rt (temperature d) (float_of_int rt 0) \<or>
           fless rt (float_of_int rt 40) (temperature d)
        then ''WARNING: Temperature outside normal operating range!''
        else ''Temperature OK'')) @
     emit (logFile d) (entry_line (stamp rt w 6) (deviceName d)
       ''Diagnostics completed'') \<and>
   length (console_lines (out (snd (performDiagnostics rt (d, w))))) =
     length (console_lines (out w)) + 7"
  by (simp add: performDiagnostics_eq console_lines_append emit_def)

text \<open>
  Claim C6, the amended statement on the specification's first example (battery 10,
  temperature 50, powered on): both warnings are among the seven entries.
\<close>

theorem performDiagnostics_seven_entries_witness:
  "isLowBattery (sample_device True 10 50000000 True) \<and>
   fless sample_runtime (float_of_int sample_runtime 40)
     (temperature (sample_device True 10 50000000 True)) \<and>
   fst (performDiagnostics sample_runtime (sample_device True 10 50000000 True, sample_world True))
     = sample_device True 10 50000000 True \<and>
   console_lines (out (snd (performDiagnostics sample_runtime
       (sample_device True 10 50000000 True, sample_world True)))) =
     [''[2023-11-14 22:13:21] X: Starting diagnostics...'',
      ''[2023-11-14 22:13:23] X: Checking power: OK'',
      ''[2023-11-14 22:13:25] X: Checking battery level: 10%'',
      ''[2023-11-14 22:13:27] X: WARNING: Low battery detected!'',
      ''[2023-11-14 22:13:29] X: Checking temperature: 50.000000'' @ degree @ ''C'',
      ''[2023-11-14 22:13:31] X: WARNING: Temperature outside normal operating range!'',
      ''[2023-11-14 22:13:33] X: Diagnostics completed'']"
  using performDiagnostics_seven_entries
    [of sample_runtime "sample_device True 10 50000000 True" "sample_world True"]
  by (simp add: sample_defs isLowBattery_def)

text \<open>
  Claim C6 as it is written has the number of entries vary between 5 and 7, the two
  warnings being included only when triggered. On the specification's second example
  (battery 50, temperature 20) neither warning triggers and the call still emits seven
  entries, not five: an OK line stands where each warning would.
\<close>

theorem performDiagnostics_count_counterexample:
  "\<not> isLowBattery (sample_device True 50 20000000 True) \<and>
   \<not> fless sample_runtime (temperature (sample_device True 50 20000000 True))
       (float_of_int sample_runtime 0) \<and>
   \<not> fless sample_runtime (float_of_int sample_runtime 40)
       (temperature (sample_device True 50 20000000 True)) \<and>
   length (console_lines (out (snd (performDiagnostics sample_runtime
       (sample_device True 50 20000000 True, sample_world True))))) = 7 \<and>
   console_lines (out (snd (performDiagnostics sample_runtime
       (sample_device True 50 20000000 True, sample_world True)))) =
     [''[2023-11-14 22:13:21] X: Starting diagnostics...'',
      ''[2023-11-14 22:13:23] X: Checking power: OK'',
      ''[2023-11-14 22:13:25] X: Checking battery level: 50%'',
      ''[2023-11-14 22:13:27] X: Battery level OK'',
      ''[2023-11-14 22:13:29] X: Checking temperature: 20.000000'' @ degree @ ''C'',
      ''[2023-11-14 22:13:31] X: Temperature OK'',
      ''[2023-11-14 22:13:33] X: Diagnostics completed'']"
  by (simp add: performDiagnostics_eq sample_defs isLowBattery_def)

section \<open>One entry for each change\<close>

lemma setDeviceName_eq:
  "setDeviceName rt name (d, w) =
     (d\<lparr>deviceName := name\<rparr>,
      w\<lparr>reads := reads w + 2,
        out := out w @ emit (logFile d) (entry_line (stamp rt w 0) name
          (''Device name changed to: '' @ name))\<rparr>)"
  by (simp add: setDeviceName_def log_eq)

lemma setDeviceType_eq:
  "setDeviceType rt type (d, w) =
     (d\<lparr>deviceType := type\<rparr>,
      w\<lparr>reads := reads w + 2,
        out := out w @ emit (logFile d) (entry_line (stamp rt w 0) (deviceName d)
          (''Device type changed to: '' @ type))\<rparr>)"
  by (simp add: setDeviceType_def log_eq)

lemma setLocation_eq:
  "setLocation rt loc (d, w) =
     (d\<lparr>location := loc\<rparr>,
      w\<lparr>reads := reads w + 2,
        out := out w @ emit (logFile d) (entry_line (stamp rt w 0) (deviceName d)
          (''Location changed to: '' @ loc))\<rparr>)"
  by (simp add: setLocation_def log_eq)

lemma setPoweredOn_eq:
  "setPoweredOn rt powered (d, w) =
     (d\<lparr>isPoweredOn := powered\<rparr>,
      w\<lparr>reads := reads w + 2,
        out := out w @ emit (logFile d) (entry_line (stamp rt w 0) (deviceName d)
          (''Device power state changed to: '' @ (if powered then ''ON'' else ''OFF'')))\<rparr>)"
  by (simp add: setPoweredOn_def log_eq)

lemma setBatteryLevel_eq:
  "setBatteryLevel rt level (d, w) =
     (d\<lparr>batteryLevel := word_of_int (max 0 (min 100 (sint level)))\<rparr>,
      w\<lparr>reads := reads w + 2,
        out := out w @ emit (logFile d) (entry_line (stamp rt w 0) (deviceName d)
          (''Battery level set to: '' @ to_string (max 0 (min 100 (sint level))) @ ''%''))\<rparr>)"
  by (simp add: setBatteryLevel_def log_eq Let_def max_def min_def)

lemma setTemperature_eq:
  "setTemperature rt temp (d, w) =
     (d\<lparr>temperature := temp\<rparr>,
      w\<lparr>reads := reads w + 2,
        out := out w @ emit (logFile d) (entry_line (stamp rt w 0) (deviceName d)
          (''Temperature set to: '' @ to_string_float rt temp @ degree @ ''C''))\<rparr>)"
  by (simp add: setTemperature_def log_eq)

lemma powerToggle_eq:
  "powerToggle rt (d, w) =
     (d\<lparr>isPoweredOn := \<not> isPoweredOn d\<rparr>,
      w\<lparr>reads := reads w + 2,
        out := out w @ emit (logFile d) (entry_line (stamp rt w 0) (deviceName d)
          (''Device toggled to: '' @ (if isPoweredOn d then ''OFF'' else ''ON'')))\<rparr>)"
  by (simp add: powerToggle_def log_eq Let_def)

text \<open>
  Claim C7, as amended: each of \<^verbatim>\<open>setDeviceName\<close>, \<^verbatim>\<open>setDeviceType\<close>, \<^verbatim>\<open>setLocation\<close>,
  \<^verbatim>\<open>setPoweredOn\<close>, \<^verbatim>\<open>setBatteryLevel\<close>, \<^verbatim>\<open>setTemperature\<close>, \<^verbatim>\<open>powerToggle\<close> and the
  state-changing branches of \<^verbatim>\<open>chargeBattery\<close> and \<^verbatim>\<open>adjustTemperature\<close> emits exactly one
  log entry that describes the change: the line \<^verbatim>\<open>[<timestamp>] <device-name>: <message>\<close>,
  written to the sink \<^emph>\<open>if the sink is open\<close> and then to the console. (The name in the
  entry of \<^verbatim>\<open>setDeviceName\<close> is the new one.)
\<close>

theorem state_change_logs_one_entry:
  "out (snd (setDeviceName rt name (d, w))) =
     out w @ emit (logFile d) (entry_line (stamp rt w 0) name
       (''Device name changed to: '' @ name)) \<and>
   out (snd (setDeviceType rt type (d, w))) =
     out w @ emit (logFile d) (entry_line (stamp rt w 0) (deviceName d)
       (''Device type changed to: '' @ type)) \<and>
   out (snd (setLocation rt loc (d, w))) =
     out w @ emit (logFile d) (entry_line (stamp rt w 0) (deviceName d)
       (''Location changed to: '' @ loc)) \<and>
   out (snd (setPoweredOn rt powered (d, w))) =
     out w @ emit (logFile d) (entry_line (stamp rt w 0) (deviceName d)
       (''Device power state changed to: '' @ (if powered then ''ON'' else ''OFF''))) \<and>
   out (snd (setBatteryLevel rt level (d, w))) =
     out w @ emit (logFile d) (entry_line (stamp rt w 0) (deviceName d)
       (''Battery level set to: '' @ to_string (max 0 (min 100 (sint level))) @ ''%'')) \<and>
   out (snd (setTemperature rt temp (d, w))) =
     out w @ emit (logFile d) (entry_line (stamp rt w 0) (deviceName d)
       (''Temperature set to: '' @ to_string_float rt temp @ degree @ ''C'')) \<and>
   out (snd (powerToggle rt (d, w))) =
     out w @ emit (logFile d) (entry_line (stamp rt w 0) (deviceName d)
       (''Device toggled to: '' @ (if isPoweredOn d then ''OFF'' else ''ON''))) \<and>
   (isPoweredOn d \<longrightarrow>
      out (snd (snd (chargeBattery rt amount (d, w)))) =
        out w @ emit (logFile d) (entry_line (stamp rt w 0) (deviceName d)
          (''Battery charged by '' @
           to_string (sint (batteryLevel (fst (snd (chargeBattery rt amount (d, w)))) -
                            batteryLevel d)) @
           ''%. New level: '' @
           to_string (sint (batteryLevel (fst (snd (chargeBattery rt amount (d, w)))))) @
           ''%''))) \<and>
   (isPoweredOn d \<longrightarrow>
      out (snd (adjustTemperature rt delta (d, w))) =
        out w @ emit (logFile d) (entry_line (stamp rt w 0) (deviceName d)
          (''Temperature adjusted from '' @ to_string_float rt (temperature d) @ degree @
           ''C to '' @ to_string_float rt (fadd rt (temperature d) delta) @ degree @ ''C'')))"
  by (simp add: setDeviceName_eq setDeviceType_eq setLocation_eq setPoweredOn_eq
      setBatteryLevel_eq setTemperature_eq powerToggle_eq chargeBattery_on adjustTemperature_eq)

text \<open>
  Claim C7, the amended statement on a device that is powered on and whose sink is
  open: the entries of \<^verbatim>\<open>setDeviceName\<close>, \<^verbatim>\<open>setBatteryLevel\<close> and \<^verbatim>\<open>adjustTemperature\<close>.
\<close>

theorem state_change_logs_one_entry_witness:
  "isPoweredOn (sample_device True 50 20000000 True) \<and>
   logFile (sample_device True 50 20000000 True) \<and>
   out (snd (setDeviceName sample_runtime ''Hub''
         (sample_device True 50 20000000 True, sample_world True))) =
     [FileLine ''[2023-11-14 22:13:21] Hub: Device name changed to: Hub'',
      ConsoleLine ''[2023-11-14 22:13:21] Hub: Device name changed to: Hub''] \<and>
   out (snd (setBatteryLevel sample_runtime 150
         (sample_device True 50 20000000 True, sample_world True))) =
     [FileLine ''[2023-11-14 22:13:21] X: Battery level set to: 100%'',
      ConsoleLine ''[2023-11-14 22:13:21] X: Battery level set to: 100%''] \<and>
   out (snd (adjustTemperature sample_runtime 2500000
         (sample_device True 50 20000000 True, sample_world True))) =
     [FileLine (''[2023-11-14 22:13:21] X: Temperature adjusted from 20.000000'' @ degree @
                ''C to 22.500000'' @ degree @ ''C''),
      ConsoleLine (''[2023-11-14 22:13:21] X: Temperature adjusted from 20.000000'' @ degree @
                   ''C to 22.500000'' @ degree @ ''C'')]"
  using state_change_logs_one_entry
    [of sample_runtime "''Hub''" "sample_device True 50 20000000 True" "sample_world True"
        "''Y''" "''Z''" True 150 20000000 10 2500000]
  by (simp add: sample_defs)

text \<open>
  Claim C7 as it is written has every entry written to the sink and then to the
  console. \<^verbatim>\<open>log\<close> writes to the sink only under \<^verbatim>\<open>logFile.is_open()\<close>: on a device whose
  sink could not be opened, \<^verbatim>\<open>setPoweredOn(true)\<close> writes its entry to the console and
  nothing to the sink.
\<close>

theorem closed_sink_counterexample:
  "\<not> logFile (sample_device False 50 20000000 False) \<and>
   out (snd (setPoweredOn sample_runtime True
         (sample_device False 50 20000000 False, sample_world False))) =
     [ConsoleLine ''[2023-11-14 22:13:21] X: Device power state changed to: ON''] \<and>
   file_lines (out (snd (setPoweredOn sample_runtime True
         (sample_device False 50 20000000 False, sample_world False)))) = []"
  by (simp add: setPoweredOn_eq sample_defs)

section \<open>Constructors\<close>

lemma SmartDevice_default_eq:
  "SmartDevice_default rt w =
     (\<lparr>deviceName = ''Unknown'', deviceType = ''Generic'', isPoweredOn = False,
       batteryLevel = 100, temperature = float_of_int rt 20, location = ''Not set'',
       logFile = can_open w ''device_log.txt''\<rparr>,
      w\<lparr>reads := reads w + 2,
        out := out w @
          (if can_open w ''device_log.txt'' then []
           else [CerrLine ''Failed to open log file: device_log.txt'']) @
          emit (can_open w ''device_log.txt'')
            (entry_line (stamp rt w 0) ''Unknown'' ''Device created with default parameters'')\<rparr>)"
  by (simp add: SmartDevice_default_def initLogger_def log_eq Let_def stamp_def)


lemma SmartDevice_name_eq:
  "SmartDevice_name rt name w =
     (\<lparr>deviceName = name, deviceType = ''Generic'', isPoweredOn = False,
       batteryLevel = 100, temperature = float_of_int rt 20, location = ''Not set'',
       logFile = can_open w ''device_log.txt''\<rparr>,
      w\<lparr>reads := reads w + 4,
        out := out w @
          (if can_open w ''device_log.txt'' then []
           else [CerrLine ''Failed to open log file: device_log.txt'']) @
          emit (can_open w ''device_log.txt'')
            (entry_line (stamp rt w 0) ''Unknown'' ''Device created with default parameters'') @
          emit (can_open w ''device_log.txt'')
            (entry_line (stamp rt w 1) name (''Device name set to: '' @ name))\<rparr>)"
  by (simp add: SmartDevice_name_def SmartDevice_default_eq log_eq stamp_def eval_nat_numeral)

lemma SmartDevice_name_type_eq:
  "SmartDevice_name_type rt name type w =
     (\<lparr>deviceName = name, deviceType = type, isPoweredOn = False,
       batteryLevel = 100, temperature = float_of_int rt 20, location = ''Not set'',
       logFile = can_open w ''device_log.txt''\<rparr>,
      w\<lparr>reads := reads w + 6,
        out := out w @
          (if can_open w ''device_log.txt'' then []
           else [CerrLine ''Failed to open log file: device_log.txt'']) @
          emit (can_open w ''device_log.txt'')
            (entry_line (stamp rt w 0) ''Unknown'' ''Device created with default parameters'') @
          emit (can_open w ''device_log.txt'')
            (entry_line (stamp rt w 1) name (''Device name set to: '' @ name)) @
          emit (can_open w ''device_log.txt'')
            (entry_line (stamp rt w 2) name (''Device type set to: '' @ type))\<rparr>)"
  by (simp add: SmartDevice_name_type_def SmartDevice_name_eq log_eq stamp_def eval_nat_numeral)

lemma SmartDevice_name_type_loc_eq:
  "SmartDevice_name_type_loc rt name type loc w =
     (\<lparr>deviceName = name, deviceType = type, isPoweredOn = False,
       batteryLevel = 100, temperature = float_of_int rt 20, location = loc,
       logFile = can_open w ''device_log.txt''\<rparr>,
      w\<lparr>reads := reads w + 8,
        out := out w @
          (if can_open w ''device_log.txt'' then []
           else [CerrLine ''Failed to open log file: device_log.txt'']) @
          emit (can_open w ''device_log.txt'')
            (entry_line (stamp rt w 0) ''Unknown'' ''Device created with default parameters'') @
          emit (can_open w ''device_log.txt'')
            (entry_line (stamp rt w 1) name (''Device name set to: '' @ name)) @
          emit (can_open w ''device_log.txt'')
            (entry_line (stamp rt w 2) name (''Device type set to: '' @ type)) @
          emit (can_open w ''device_log.txt'')
            (entry_line (stamp rt w 3) name (''Device location set to: '' @ loc))\<rparr>)"
  by (simp add: SmartDevice_name_type_loc_def SmartDevice_name_type_eq log_eq stamp_def
      eval_nat_numeral)

text \<open>
  Claim C10: each delegating constructor (name; name and type; name, type and location)
  runs the default constructor first, so the entry "Device created with default
  parameters" carries the device name "Unknown" in its prefix; the supplied name is
  assigned after that, and only the entries for the fields that follow carry it. (The
  notice on the error stream comes first when the sink cannot be opened.)
\<close>

theorem delegating_constructors_log_unknown:
  "out (snd (SmartDevice_name rt name w)) =
     out w @
     (if can_open w ''device_log.txt'' then []
      else [CerrLine ''Failed to open log file: device_log.txt'']) @
     emit (can_open w ''device_log.txt'')
       (entry_line (stamp rt w 0) ''Unknown'' ''Device created with default parameters'') @
     emit (can_open w ''device_log.txt'')
       (entry_line (stamp rt w 1) name (''Device name set to: '' @ name)) \<and>
   out (snd (SmartDevice_name_type rt name type w)) =
     out w @
     (if can_open w ''device_log.txt'' then []
      else [CerrLine ''Failed to open log file: device_log.txt'']) @
     emit (can_open w ''device_log.txt'')
       (entry_line (stamp rt w 0) ''Unknown'' ''Device created with default parameters'') @
     emit (can_open w ''device_log.txt'')
       (entry_line (stamp rt w 1) name (''Device name set to: '' @ name)) @
     emit (can_open w ''device_log.txt'')
       (entry_line (stamp rt w 2) name (''Device type set to: '' @ type)) \<and>
   out (snd (SmartDevice_name_type_loc rt name type loc w)) =
     out w @
     (if can_open w ''device_log.txt'' then []
      else [CerrLine ''Failed to open log file: device_log.txt'']) @
     emit (can_open w ''device_log.txt'')
       (entry_line (stamp rt w 0) ''Unknown'' ''Device created with default parameters'') @
     emit (can_open w ''device_log.txt'')
       (entry_line (stamp rt w 1) name (''Device name set to: '' @ name)) @
     emit (can_open w ''device_log.txt'')
       (entry_line (stamp rt w 2) name (''Device type set to: '' @ type)) @
     emit (can_open w ''device_log.txt'')
       (entry_line (stamp rt w 3) name (''Device location set to: '' @ loc))"
  by (simp add: SmartDevice_name_eq SmartDevice_name_type_eq SmartDevice_name_type_loc_eq)

text \<open>
  Claim C10 on the fourth device of the program's \<^verbatim>\<open>main\<close>: the first entry is
  prefixed "Unknown", the other three "Bedroom Camera".
\<close>

theorem delegating_constructors_log_unknown_witness:
  "out (snd (SmartDevice_name_type_loc sample_runtime ''Bedroom Camera'' ''Security Camera''
              ''Bedroom'' (sample_world True))) =
     [FileLine ''[2023-11-14 22:13:21] Unknown: Device created with default parameters'',
      ConsoleLine ''[2023-11-14 22:13:21] Unknown: Device created with default parameters'',
      FileLine ''[2023-11-14 22:13:23] Bedroom Camera: Device name set to: Bedroom Camera'',
      ConsoleLine ''[2023-11-14 22:13:23] Bedroom Camera: Device name set to: Bedroom Camera'',
      FileLine ''[2023-11-14 22:13:25] Bedroom Camera: Device type set to: Security Camera'',
      ConsoleLine ''[2023-11-14 22:13:25] Bedroom Camera: Device type set to: Security Camera'',
      FileLine ''[2023-11-14 22:13:27] Bedroom Camera: Device location set to: Bedroom'',
      ConsoleLine ''[2023-11-14 22:13:27] Bedroom Camera: Device location set to: Bedroom'']"
  using delegating_constructors_log_unknown
    [of sample_runtime "''Bedroom Camera''" "sample_world True" "''Security Camera''" "''Bedroom''"]
  by (simp add: sample_defs)

section \<open>When the sink cannot be opened\<close>



lemma getDeviceStatus_sink [simp]:
  "getDeviceStatus rt (d\<lparr>logFile := b\<rparr>) = getDeviceStatus rt d"
  by (simp add: getDeviceStatus_def)

lemma isLowBattery_sink [simp]: "isLowBattery (d\<lparr>logFile := b\<rparr>) = isLowBattery d"
  by (simp add: isLowBattery_def)












end
